theory Spec2Isabelle
  imports Main "HOL-Library.AList" "HOL-Library.DAList"
begin

section \<open>Python values handled by \<open>scooby.versions.Versions\<close>\<close>

text \<open>
  The values that reach the methods of \<open>Versions\<close>: \<open>None\<close>, booleans, strings, integers,
  module objects, \<open>mock.Mock\<close> objects, lists and tuples. A module object carries its
  \<open>__name__\<close> and a table of its other attributes: every attribute that attribute lookup
  finds on the object with a value of this type, those that each module has (\<open>__doc__\<close>,
  \<open>__package__\<close>, ...) included.
\<close>

datatype pyval =
    PNone
  | PBool bool
  | PStr string
  | PInt int
  | PModule module
  | PMock
  | PList "pyval list"
  | PTuple "pyval list"
and module = Module (mod_name: string) (mod_attrs: "(string \<times> pyval) list")

text \<open>
  What \<open>importlib.import_module\<close> hands back and \<open>sys.modules\<close> holds: a genuine module
  (an instance of \<open>types.ModuleType\<close>), or the \<open>mock.Mock()\<close> that
  \<open>_safe_import_by_name\<close> puts there.
\<close>

datatype modobj = Genuine module | MockStub

text \<open>
  Exceptions. \<open>ImportError\<close> stands for the class and its subclass
  \<open>ModuleNotFoundError\<close>; \<open>OtherError\<close> for any class not named here.
\<close>

datatype error =
    TypeError string
  | AttributeError string
  | ValueError string
  | ImportError string
  | OtherError string

text \<open>The outcome of loading a module that is not cached: the module, or an exception.\<close>

datatype load_result = Loaded module | Failed error

datatype log_record = Warning string

definition quote :: string where
  "quote = [CHR 0x27]"

definition newline :: char where
  "newline = CHR 0x0A"

text \<open>\<open>str(type(x))\<close>, as the messages of the type errors format it.\<close>

fun type_name :: "pyval \<Rightarrow> string" where
  "type_name PNone = ''NoneType''"
| "type_name (PBool _) = ''bool''"
| "type_name (PStr _) = ''str''"
| "type_name (PInt _) = ''int''"
| "type_name (PModule _) = ''module''"
| "type_name PMock = ''Mock''"
| "type_name (PList _) = ''list''"
| "type_name (PTuple _) = ''tuple''"

definition type_repr :: "pyval \<Rightarrow> string" where
  "type_repr x =
     ''<class '' @ quote @ (if x = PMock then ''mock.mock.'' else []) @ type_name x @ quote @ ''>''"

text \<open>\<open>types.ModuleType(name)\<close>: a new module, with the attributes each module has.\<close>

definition ModuleType :: "string \<Rightarrow> module" where
  "ModuleType name =
     Module name
       [(''__doc__'', PNone), (''__package__'', PNone), (''__loader__'', PNone),
        (''__spec__'', PNone)]"

subsection \<open>Attribute access\<close>

text \<open>
  \<open>getattr(module, attr)\<close>; \<open>None\<close> stands for \<open>AttributeError\<close>. What a \<open>mock.Mock()\<close>
  answers is decided by the \<open>mock\<close> library, outside this repository: it is the
  parameter \<open>mk\<close> of \<open>get_version\<close>.
\<close>

fun getattr :: "(string \<Rightarrow> pyval option) \<Rightarrow> modobj \<Rightarrow> string \<Rightarrow> pyval option" where
  "getattr mk (Genuine m) attr =
     (if attr = ''__name__'' then Some (PStr (mod_name m)) else map_of (mod_attrs m) attr)"
| "getattr mk MockStub attr = mk attr"

section \<open>The state: a \<open>Versions\<close> object and the interpreter around it\<close>

text \<open>
  \<open>packages\<close>, \<open>ncol\<close> and \<open>text_width\<close> are the fields of \<open>self\<close>; \<open>packages\<close> is the
  dict \<open>self._packages\<close>, which keeps its keys unique and in insertion order.
  \<open>sys_modules\<close> is the module cache \<open>sys.modules\<close>. \<open>loader\<close> is what the import system
  does for a name that is not cached, given the cache as it is then: a module whose code
  imports a name that an earlier failure has replaced by a mock may load although it
  failed before. \<open>log\<close> holds the records given to \<open>logging\<close>, oldest first.
\<close>

record py_state =
  packages :: "(string, module) alist"
  ncol :: int
  text_width :: int
  sys_modules :: "string \<rightharpoonup> modobj"
  loader :: "(string \<rightharpoonup> modobj) \<Rightarrow> string \<Rightarrow> load_result"
  log :: "log_record list"

definition names :: "py_state \<Rightarrow> string list" where
  "names s = map fst (DAList.impl_of (packages s))"

text \<open>
  \<open>importlib.import_module(name)\<close> with no \<open>package\<close> argument. A name with a leading dot
  raises \<open>TypeError\<close> and the empty name \<open>ValueError\<close>, before the cache is looked at. A
  cached object is returned as it is. Otherwise the module is loaded and cached, or the
  exception of the load is raised: \<open>ImportError\<close> when nothing is found, or whatever the
  code of the module raises. A load caches the module under its own name only, and a
  failed load leaves the state as it was.
\<close>

definition import_module :: "py_state \<Rightarrow> string \<Rightarrow> (error + modobj) \<times> py_state" where
  "import_module s name =
     (if take 1 name = ''.'' then
        (Inl (TypeError (''the '' @ quote @ ''package'' @ quote @
           '' argument is required to perform a relative import for '' @ quote @ name @ quote)), s)
      else if name = [] then (Inl (ValueError ''Empty module name''), s)
      else
        (case sys_modules s name of
           Some obj \<Rightarrow> (Inr obj, s)
         | None \<Rightarrow>
             (case loader s (sys_modules s) name of
                Loaded m \<Rightarrow>
                  (Inr (Genuine m), s\<lparr>sys_modules := (sys_modules s)(name \<mapsto> Genuine m)\<rparr>)
              | Failed e \<Rightarrow> (Inl e, s))))"

section \<open>The methods of \<open>Versions\<close>\<close>

text \<open>
  \<open>_safe_import_by_name\<close>: the \<open>except\<close> clause names \<open>ImportError\<close> and
  \<open>ModuleNotFoundError\<close>; any other exception of the import passes through.
\<close>

definition safe_import_by_name :: "py_state \<Rightarrow> string \<Rightarrow> (error + modobj) \<times> py_state" where
  "safe_import_by_name s name =
     (case import_module s name of
        (Inr module, s1) \<Rightarrow> (Inr module, s1)
      | (Inl e, s1) \<Rightarrow>
          (case e of
             ImportError msg \<Rightarrow>
               (Inr MockStub,
                s1\<lparr>log := log s1 @
                     [Warning (''Could not import module `'' @ name @ ''`. This will be mocked.'')],
                   sys_modules := (sys_modules s1)(name \<mapsto> MockStub)\<rparr>)
           | _ \<Rightarrow> (Inl e, s1)))"

fun obj_name :: "modobj \<Rightarrow> error + string" where
  "obj_name (Genuine m) = Inr (mod_name m)"
| "obj_name MockStub = Inl (AttributeError ''__name__'')"

definition add_package :: "py_state \<Rightarrow> modobj \<Rightarrow> string option \<Rightarrow> (error + unit) \<times> py_state" where
  "add_package s module name =
     (case (case name of None \<Rightarrow> obj_name module | Some n \<Rightarrow> Inr n) of
        Inl e \<Rightarrow> (Inl e, s)
      | Inr n \<Rightarrow>
          (case module of
             MockStub \<Rightarrow> (Inl (TypeError ''Module passed is not a module.''), s)
           | Genuine m \<Rightarrow> (Inr (), s\<lparr>packages := DAList.update n m (packages s)\<rparr>)))"

definition add_package_by_name :: "py_state \<Rightarrow> string \<Rightarrow> (error + bool) \<times> py_state" where
  "add_package_by_name s name =
     (case safe_import_by_name s name of
        (Inl e, s1) \<Rightarrow> (Inl e, s1)
      | (Inr module, s1) \<Rightarrow>
          if module \<noteq> MockStub then
            (case add_package s1 module (Some name) of
               (Inl e, s2) \<Rightarrow> (Inl e, s2)
             | (Inr _, s2) \<Rightarrow> (Inr True, s2))
          else (Inr False, s1))"

text \<open>The body of the loop of \<open>add_packages\<close>, for one element.\<close>

definition add_packages_step :: "py_state \<Rightarrow> pyval \<Rightarrow> (error + unit) \<times> py_state" where
  "add_packages_step s pckg =
     (case pckg of
        PStr name \<Rightarrow>
          (case add_package_by_name s name of
             (Inl e, s1) \<Rightarrow> (Inl e, s1)
           | (Inr _, s1) \<Rightarrow> (Inr (), s1))
      | PModule m \<Rightarrow> add_package s (Genuine m) None
      | PNone \<Rightarrow> (Inr (), s)
      | _ \<Rightarrow> (Inl (TypeError (''Cannot add package from type ('' @ type_repr pckg @ '')'')), s))"

fun add_packages_loop :: "py_state \<Rightarrow> pyval list \<Rightarrow> (error + unit) \<times> py_state" where
  "add_packages_loop s [] = (Inr (), s)"
| "add_packages_loop s (pckg # rest) =
     (case add_packages_step s pckg of
        (Inl e, s1) \<Rightarrow> (Inl e, s1)
      | (Inr _, s1) \<Rightarrow> add_packages_loop s1 rest)"

definition add_packages :: "py_state \<Rightarrow> pyval \<Rightarrow> (error + unit) \<times> py_state" where
  "add_packages s pckgs =
     (case pckgs of
        PList xs \<Rightarrow> add_packages_loop s xs
      | PTuple xs \<Rightarrow> add_packages_loop s xs
      | _ \<Rightarrow> (Inl (TypeError ''You must pass a list of packages or package names.''), s))"

subsection \<open>Construction\<close>





subsection \<open>Version lookup\<close>

text \<open>
  \<open>get_version\<close>, first half: fetch the module and its name. \<open>self._packages[name]\<close>
  raises \<open>KeyError\<close> exactly when the lookup is \<open>None\<close>.
\<close>

definition get_version_fetch :: "py_state \<Rightarrow> pyval \<Rightarrow> (error + string \<times> modobj) \<times> py_state" where
  "get_version_fetch s pckg =
     (case pckg of
        PStr name \<Rightarrow>
          (case DAList.lookup (packages s) name of
             Some m \<Rightarrow> (Inr (name, Genuine m), s)
           | None \<Rightarrow>
               (case safe_import_by_name s name of
                  (Inl e, s1) \<Rightarrow> (Inl e, s1)
                | (Inr module, s1) \<Rightarrow> (Inr (name, module), s1)))
      | PModule m \<Rightarrow> (Inr (mod_name m, Genuine m), s)
      | _ \<Rightarrow> (Inl (TypeError (''Cannot fetch version from type ('' @ type_repr pckg @ '')'')), s))"

text \<open>
  \<open>get_version\<close>, second half: the version from the module. \<open>va\<close> is the table
  \<open>scooby.knowledge.VERSION_ATTRIBUTES\<close>; the inner \<open>case\<close> is the first \<open>try\<close> block, whose
  \<open>KeyError\<close> and \<open>AttributeError\<close> lead to the same handler.
\<close>

definition get_version_info ::
  "(string \<Rightarrow> pyval option) \<Rightarrow> (string \<rightharpoonup> string) \<Rightarrow> py_state \<Rightarrow> string \<Rightarrow> modobj \<Rightarrow>
     pyval \<times> py_state" where
  "get_version_info mk va s name module =
     (case (case va name of None \<Rightarrow> None | Some attr \<Rightarrow> getattr mk module attr) of
        Some version \<Rightarrow> (version, s)
      | None \<Rightarrow>
          (case getattr mk module ''__version__'' of
             Some version \<Rightarrow> (version, s)
           | None \<Rightarrow>
               (PStr ''unknown'',
                s\<lparr>log := log s @
                   [Warning (''Varsion attribute for `'' @ name @ ''` is unknown.'')]\<rparr>)))"

definition get_version ::
  "(string \<Rightarrow> pyval option) \<Rightarrow> (string \<rightharpoonup> string) \<Rightarrow> py_state \<Rightarrow> pyval \<Rightarrow>
     (error + pyval) \<times> py_state" where
  "get_version mk va s pckg =
     (case get_version_fetch s pckg of
        (Inl e, s1) \<Rightarrow> (Inl e, s1)
      | (Inr (name, module), s1) \<Rightarrow>
          (case get_version_info mk va s1 name module of
             (version, s2) \<Rightarrow> (Inr version, s2)))"

subsection \<open>The wrapped interpreter version\<close>

text \<open>
  \<open>sys_version\<close>: \<open>wrap\<close> is \<open>textwrap.wrap\<close> and \<open>version\<close> the string \<open>sys.version\<close>.
\<close>

definition sys_version ::
  "(string \<Rightarrow> int \<Rightarrow> error + string list) \<Rightarrow> string \<Rightarrow> py_state \<Rightarrow> error + string" where
  "sys_version wrap version s =
     (case wrap version (text_width s - 4) of
        Inl e \<Rightarrow> Inl e
      | Inr lines \<Rightarrow> Inr (foldl (\<lambda>text txt. text @ ''  '' @ txt @ [newline]) [newline] lines))"

section \<open>Notions of the specification\<close>









text \<open>
  \<open>str.split(c)\<close> for a one-character separator: the pieces between the separators.
\<close>

fun split_on :: "char \<Rightarrow> string \<Rightarrow> string list" where
  "split_on c [] = [[]]"
| "split_on c (x # xs) =
     (if x = c then [] # split_on c xs
      else (case split_on c xs of [] \<Rightarrow> [[x]] | l # ls \<Rightarrow> (x # l) # ls))"

text \<open>
  What \<open>sys_version\<close> relies on from \<open>textwrap.wrap\<close> with its default options, as the
  library documents it: a width that is not positive raises \<open>ValueError\<close>; otherwise it
  returns lines without newlines, each at most \<open>width\<close> characters long.
\<close>

definition textwrap_contract :: "(string \<Rightarrow> int \<Rightarrow> error + string list) \<Rightarrow> bool" where
  "textwrap_contract wrap =
     (\<forall>text width.
        (width \<le> 0 \<longrightarrow> (\<exists>e. wrap text width = Inl e)) \<and>
        (0 < width \<longrightarrow>
           (\<exists>lines. wrap text width = Inr lines \<and>
              (\<forall>l \<in> set lines. int (length l) \<le> width \<and> newline \<notin> set l))))"

section \<open>Concrete inputs\<close>

text \<open>
  A wrapping function that meets the contract: it turns newlines into spaces and cuts the
  text into pieces of \<open>width\<close> characters.
\<close>

function chop :: "nat \<Rightarrow> string \<Rightarrow> string list" where
  "chop n xs = (if n = 0 \<or> xs = [] then [] else take n xs # chop n (drop n xs))"
  by pat_completeness auto
termination
  by (relation "measure (\<lambda>(n, xs). length xs)") auto

declare chop.simps [simp del]

definition chop_wrap :: "string \<Rightarrow> int \<Rightarrow> error + string list" where
  "chop_wrap text width =
     (if width \<le> 0 then Inl (ValueError ''invalid width (must be > 0)'')
      else Inr (chop (nat width) (map (\<lambda>c. if c = newline then CHR '' '' else c) text)))"

text \<open>
  Attribute access on a fresh \<open>mock.Mock()\<close>. The data attributes a mock starts with are
  found first. For any other name \<open>Mock.__getattr__\<close> decides: it raises \<open>AttributeError\<close>
  for \<open>_mock_methods\<close> and \<open>_mock_unsafe\<close>, for a magic name (\<open>mock._is_magic\<close>:
  \<open>'__%s__' % name[2:-2] == name\<close>) and for a name that starts with \<open>assert\<close> or \<open>assret\<close>,
  and creates a child mock otherwise. The methods of the mock classes and the attributes
  that every object has (\<open>__class__\<close>, \<open>__doc__\<close>, ...) have values outside \<open>pyval\<close> and are
  left out: on those names this function is not the library's answer.
\<close>

definition is_magic :: "string \<Rightarrow> bool" where
  "is_magic name = (''__'' @ take (length name - 4) (drop 2 name) @ ''__'' = name)"

definition mock_data_attrs :: "(string \<times> pyval) list" where
  "mock_data_attrs =
     [(''called'', PBool False), (''call_count'', PInt 0), (''call_args'', PNone),
      (''call_args_list'', PList []), (''method_calls'', PList []), (''mock_calls'', PList []),
      (''side_effect'', PNone), (''return_value'', PMock)]"

definition mock_getattr :: "string \<Rightarrow> pyval option" where
  "mock_getattr attr =
     (case map_of mock_data_attrs attr of
        Some v \<Rightarrow> Some v
      | None \<Rightarrow>
          if attr = ''_mock_methods'' \<or> attr = ''_mock_unsafe'' \<or> is_magic attr \<or>
             take 6 attr = ''assert'' \<or> take 6 attr = ''assret''
          then None else Some PMock)"

text \<open>
  An interpreter with an empty module cache in which \<open>numpy\<close> and \<open>vtk\<close> can be imported,
  and \<open>plugin\<close>, whose code imports \<open>absent_dep\<close>, once that name is cached; nothing else
  is found. The \<open>Versions\<close> object is fresh. The table of version attributes has an entry
  for \<open>vtk\<close>.
\<close>

definition numpy_module :: module where
  "numpy_module = Module ''numpy'' [(''__doc__'', PStr ''NumPy''), (''__version__'', PStr ''1.16.4'')]"

definition vtk_module :: module where
  "vtk_module =
     Module ''vtk''
       [(''__doc__'', PNone), (''VTK_VERSION'', PStr ''8.1.2''), (''__version__'', PStr ''8.1'')]"

definition plugin_module :: module where
  "plugin_module = Module ''plugin'' [(''__doc__'', PNone), (''__version__'', PStr ''0.1'')]"

definition no_module_named :: "string \<Rightarrow> error" where
  "no_module_named name = ImportError (''No module named '' @ quote @ name @ quote)"

definition demo_loader :: "(string \<rightharpoonup> modobj) \<Rightarrow> string \<Rightarrow> load_result" where
  "demo_loader cache name =
     (if name = ''numpy'' then Loaded numpy_module
      else if name = ''vtk'' then Loaded vtk_module
      else if name = ''plugin'' \<and> cache ''absent_dep'' \<noteq> None then Loaded plugin_module
      else Failed (no_module_named name))"

definition demo_state :: py_state where
  "demo_state =
     \<lparr>packages = DAList.empty, ncol = 4, text_width = 54,
      sys_modules = Map.empty, loader = demo_loader, log = []\<rparr>"

definition demo_table :: "string \<rightharpoonup> string" where
  "demo_table = [''vtk'' \<mapsto> ''VTK_VERSION'']"

text \<open>The same, with nothing to import.\<close>

definition bare_state :: py_state where
  "bare_state =
     \<lparr>packages = DAList.empty, ncol = 4, text_width = 54,
      sys_modules = Map.empty, loader = (\<lambda>cache name. Failed (no_module_named name)), log = []\<rparr>"

text \<open>A version string of two lines, and a report sixteen columns wide.\<close>

definition demo_version :: string where
  "demo_version = ''3.7.3 (default)'' @ [newline] @ ''[GCC 7.3.0]''"

definition narrow_state :: py_state where
  "narrow_state = demo_state\<lparr>text_width := 16\<rparr>"

section \<open>Properties\<close>

subsection \<open>Importing and the fields of \<open>self\<close>\<close>

lemma import_module_raises:
  "fst (import_module s name) = Inl e \<Longrightarrow> import_module s name = (Inl e, s)"
  by (auto simp: import_module_def split: option.splits load_result.splits if_splits)


lemma import_module_returns:
  "fst (import_module s name) = Inr obj \<Longrightarrow>
   import_module s name = (Inr obj, s\<lparr>sys_modules := (sys_modules s)(name \<mapsto> obj)\<rparr>)"
  by (auto simp: import_module_def fun_upd_idem split: option.splits load_result.splits if_splits)

lemma import_module_cached:
  "sys_modules s name = Some obj \<Longrightarrow> name \<noteq> [] \<Longrightarrow> take 1 name \<noteq> ''.'' \<Longrightarrow>
   import_module s name = (Inr obj, s)"
  by (simp add: import_module_def)

lemma safe_import_by_name_returns:
  "fst (import_module s name) = Inr obj \<Longrightarrow>
   safe_import_by_name s name = (Inr obj, s\<lparr>sys_modules := (sys_modules s)(name \<mapsto> obj)\<rparr>)"
  by (simp add: safe_import_by_name_def import_module_returns)

lemma safe_import_by_name_mocks:
  "fst (import_module s name) = Inl (ImportError msg) \<Longrightarrow>
   safe_import_by_name s name =
     (Inr MockStub,
      s\<lparr>log := log s @
           [Warning (''Could not import module `'' @ name @ ''`. This will be mocked.'')],
        sys_modules := (sys_modules s)(name \<mapsto> MockStub)\<rparr>)"
  by (simp add: safe_import_by_name_def import_module_raises)

lemma safe_import_by_name_raises:
  "fst (import_module s name) = Inl e \<Longrightarrow> \<forall>msg. e \<noteq> ImportError msg \<Longrightarrow>
   safe_import_by_name s name = (Inl e, s)"
  by (cases e) (simp_all add: safe_import_by_name_def import_module_raises)

text \<open>
  The three outcomes of \<open>_safe_import_by_name\<close>: the state it leaves differs from the
  state it found in the cache entry of the name and, when it mocks, in the log.
\<close>

lemma safe_import_by_name_outcome:
  obtains
    (returns) obj where "fst (import_module s name) = Inr obj"
      "safe_import_by_name s name =
         (Inr obj, s\<lparr>sys_modules := (sys_modules s)(name \<mapsto> obj)\<rparr>)"
  | (mocks) msg where "fst (import_module s name) = Inl (ImportError msg)"
      "safe_import_by_name s name =
         (Inr MockStub,
          s\<lparr>log := log s @
               [Warning (''Could not import module `'' @ name @ ''`. This will be mocked.'')],
            sys_modules := (sys_modules s)(name \<mapsto> MockStub)\<rparr>)"
  | (raises) e where "fst (import_module s name) = Inl e" "\<forall>msg. e \<noteq> ImportError msg"
      "safe_import_by_name s name = (Inl e, s)"
proof (cases "fst (import_module s name)")
  case (Inr obj)
  then show ?thesis
    using returns safe_import_by_name_returns by blast
next
  case (Inl e)
  show ?thesis
  proof (cases "\<exists>msg. e = ImportError msg")
    case True
    then obtain msg where "e = ImportError msg" by blast
    with Inl show ?thesis
      using mocks safe_import_by_name_mocks by blast
  next
    case False
    with Inl show ?thesis
      using raises safe_import_by_name_raises by blast
  qed
qed

lemma safe_import_by_name_self:
  "packages (snd (safe_import_by_name s name)) = packages s"
  "ncol (snd (safe_import_by_name s name)) = ncol s"
  "text_width (snd (safe_import_by_name s name)) = text_width s"
  "loader (snd (safe_import_by_name s name)) = loader s"
  by (rule safe_import_by_name_outcome [of s name]; simp)+

lemma get_version_fetch_self:
  "packages (snd (get_version_fetch s pckg)) = packages s"
  "ncol (snd (get_version_fetch s pckg)) = ncol s"
  "text_width (snd (get_version_fetch s pckg)) = text_width s"
proof -
  have "packages (snd (get_version_fetch s pckg)) = packages s \<and>
      ncol (snd (get_version_fetch s pckg)) = ncol s \<and>
      text_width (snd (get_version_fetch s pckg)) = text_width s"
  proof (cases pckg)
    case (PStr name)
    obtain r s1 where imp: "safe_import_by_name s name = (r, s1)"
      by (cases "safe_import_by_name s name")
    with safe_import_by_name_self [of s name]
    have "packages s1 = packages s" "ncol s1 = ncol s" "text_width s1 = text_width s"
      by simp_all
    with PStr imp show ?thesis
      by (cases r) (simp_all add: get_version_fetch_def split: option.splits)
  qed (simp_all add: get_version_fetch_def)
  then show "packages (snd (get_version_fetch s pckg)) = packages s"
    "ncol (snd (get_version_fetch s pckg)) = ncol s"
    "text_width (snd (get_version_fetch s pckg)) = text_width s"
    by simp_all
qed

lemma get_version_info_self:
  "packages (snd (get_version_info mk va s name module)) = packages s"
  "ncol (snd (get_version_info mk va s name module)) = ncol s"
  "text_width (snd (get_version_info mk va s name module)) = text_width s"
  by (simp_all add: get_version_info_def split: option.splits)

lemma get_version_snd:
  "snd (get_version mk va s pckg) =
     (case get_version_fetch s pckg of
        (Inl e, s1) \<Rightarrow> s1
      | (Inr (name, module), s1) \<Rightarrow> snd (get_version_info mk va s1 name module))"
  by (simp add: get_version_def split: prod.splits sum.splits)

text \<open>
  Claim C5. For every input, whether \<open>get_version\<close> returns or raises, it leaves
  \<open>self._packages\<close>, \<open>self.ncol\<close> and \<open>self.text_width\<close> as they were. In particular
  the module that a one-off import finds for a name outside the registry is not stored.
\<close>

theorem get_version_frame:
  "packages (snd (get_version mk va s pckg)) = packages s \<and>
   ncol (snd (get_version mk va s pckg)) = ncol s \<and>
   text_width (snd (get_version mk va s pckg)) = text_width s"
proof (cases "get_version_fetch s pckg")
  case (Pair r s1)
  have s1: "packages s1 = packages s" "ncol s1 = ncol s" "text_width s1 = text_width s"
    using get_version_fetch_self [of s pckg] Pair by simp_all
  show ?thesis
  proof (cases r)
    case (Inl e)
    with Pair s1 show ?thesis by (simp add: get_version_snd)
  next
    case (Inr p)
    obtain name module where p: "p = (name, module)" by (cases p)
    with Pair Inr s1 show ?thesis
      by (simp add: get_version_snd get_version_info_self)
  qed
qed

lemma demo_import_fails:
  "name \<noteq> [] \<Longrightarrow> take 1 name \<noteq> ''.'' \<Longrightarrow> name \<noteq> ''numpy'' \<Longrightarrow> name \<noteq> ''vtk'' \<Longrightarrow>
   name \<noteq> ''plugin'' \<Longrightarrow> sys_modules s name = None \<Longrightarrow> loader s = demo_loader \<Longrightarrow>
   import_module s name = (Inl (no_module_named name), s)"
  by (simp add: import_module_def demo_loader_def)

text \<open>
  At a name that cannot be imported the registry stays empty, although a warning is logged.
\<close>

theorem get_version_frame_witness:
  "packages (snd (get_version mock_getattr demo_table demo_state (PStr ''missing''))) =
     DAList.empty \<and>
   log (snd (get_version mock_getattr demo_table demo_state (PStr ''missing''))) \<noteq> []"
proof -
  have "import_module demo_state ''missing'' = (Inl (no_module_named ''missing''), demo_state)"
    by (rule demo_import_fails) (simp_all add: demo_state_def)
  then have "fst (import_module demo_state ''missing'') =
      Inl (ImportError (''No module named '' @ quote @ ''missing'' @ quote))"
    by (simp add: no_module_named_def)
  note imp = safe_import_by_name_mocks [OF this]
  have l: "DAList.lookup (packages demo_state) ''missing'' = None"
    by (simp add: demo_state_def)
  have e: "packages demo_state = DAList.empty"
    by (simp add: demo_state_def)
  show ?thesis
    using get_version_frame [of mock_getattr demo_table demo_state "PStr ''missing''"]
    by (simp add: e get_version_snd get_version_fetch_def l imp get_version_info_def
        demo_table_def mock_getattr_def mock_data_attrs_def is_magic_def)
qed

subsection \<open>Adding packages\<close>

lemma add_packages_step_str:
  "add_packages_step s (PStr name) =
     (case safe_import_by_name s name of
        (Inl e, s1) \<Rightarrow> (Inl e, s1)
      | (Inr MockStub, s1) \<Rightarrow> (Inr (), s1)
      | (Inr (Genuine m), s1) \<Rightarrow>
          (Inr (), s1\<lparr>packages := DAList.update name m (packages s1)\<rparr>))"
  by (simp add: add_packages_step_def add_package_by_name_def add_package_def
      split: prod.splits sum.splits modobj.splits)

lemma add_packages_step_genuine:
  "fst (import_module s name) = Inr (Genuine m) \<Longrightarrow>
   add_packages_step s (PStr name) =
     (Inr (), s\<lparr>sys_modules := (sys_modules s)(name \<mapsto> Genuine m),
               packages := DAList.update name m (packages s)\<rparr>)"
  by (simp add: add_packages_step_str safe_import_by_name_returns)

lemma add_packages_step_mocks:
  "fst (import_module s name) = Inl (ImportError msg) \<Longrightarrow>
   add_packages_step s (PStr name) =
     (Inr (),
      s\<lparr>log := log s @
           [Warning (''Could not import module `'' @ name @ ''`. This will be mocked.'')],
        sys_modules := (sys_modules s)(name \<mapsto> MockStub)\<rparr>)"
  by (simp add: add_packages_step_str safe_import_by_name_mocks)

lemma add_packages_step_stubbed:
  "sys_modules s name = Some MockStub \<Longrightarrow> name \<noteq> [] \<Longrightarrow> take 1 name \<noteq> ''.'' \<Longrightarrow>
   add_packages_step s (PStr name) = (Inr (), s)"
  by (simp add: add_packages_step_str safe_import_by_name_def import_module_cached)

lemma add_packages_step_raises:
  "fst (import_module s name) = Inl e \<Longrightarrow> \<forall>msg. e \<noteq> ImportError msg \<Longrightarrow>
   add_packages_step s (PStr name) = (Inl e, s)"
  by (simp add: add_packages_step_str safe_import_by_name_raises)

lemma add_packages_step_module:
  "add_packages_step s (PModule m) =
     (Inr (), s\<lparr>packages := DAList.update (mod_name m) m (packages s)\<rparr>)"
  by (simp add: add_packages_step_def add_package_def)

lemma add_packages_step_none: "add_packages_step s PNone = (Inr (), s)"
  by (simp add: add_packages_step_def)

lemma add_packages_step_other:
  "\<forall>name. x \<noteq> PStr name \<Longrightarrow> \<forall>m. x \<noteq> PModule m \<Longrightarrow> x \<noteq> PNone \<Longrightarrow>
   add_packages_step s x =
     (Inl (TypeError (''Cannot add package from type ('' @ type_repr x @ '')'')), s)"
  by (cases x) (simp_all add: add_packages_step_def)

lemma add_packages_loop_append:
  "add_packages_loop s (xs @ ys) =
     (case add_packages_loop s xs of
        (Inl e, s1) \<Rightarrow> (Inl e, s1)
      | (Inr _, s1) \<Rightarrow> add_packages_loop s1 ys)"
  by (induction xs arbitrary: s) (auto split: prod.splits sum.splits)

lemma add_packages_loop_after:
  "add_packages_loop s pre = (Inr (), s1) \<Longrightarrow>
   add_packages_loop s (pre @ x # rest) =
     (case add_packages_step s1 x of
        (Inl e, s2) \<Rightarrow> (Inl e, s2)
      | (Inr _, s2) \<Rightarrow> add_packages_loop s2 rest)"
  by (simp add: add_packages_loop_append)

text \<open>Imports in the concrete interpreter.\<close>

lemma demo_import_numpy:
  "sys_modules s ''numpy'' = None \<Longrightarrow> loader s = demo_loader \<Longrightarrow>
   fst (import_module s ''numpy'') = Inr (Genuine numpy_module)"
  by (simp add: import_module_def demo_loader_def)


lemma demo_state_fields:
  "packages demo_state = DAList.empty" "sys_modules demo_state = Map.empty"
  "loader demo_state = demo_loader" "log demo_state = []"
  by (simp_all add: demo_state_def)

lemma demo_add_numpy:
  "add_packages_step demo_state (PStr ''numpy'') =
     (Inr (), demo_state\<lparr>sys_modules := [''numpy'' \<mapsto> Genuine numpy_module],
                        packages := DAList.update ''numpy'' numpy_module DAList.empty\<rparr>)"
proof -
  have "fst (import_module demo_state ''numpy'') = Inr (Genuine numpy_module)"
    by (rule demo_import_numpy) (simp_all add: demo_state_fields)
  from add_packages_step_genuine [OF this] show ?thesis
    by (simp add: demo_state_fields)
qed

lemma names_singleton: "names (s\<lparr>packages := DAList.update k v DAList.empty\<rparr>) = [k]"
  by (simp add: names_def DAList.update.rep_eq DAList.empty.rep_eq)

text \<open>
  Claim C6. When the elements before it have been processed without an error, an element of
  \<open>add_packages\<close> that is neither a string, nor a module, nor \<open>None\<close> raises a
  \<open>TypeError\<close>, and the state is the one those earlier elements left: nothing is stored
  for the offending element. \<open>None\<close> is skipped: the loop goes on with the rest of the list
  in an unchanged state, registry and log included.
\<close>

theorem add_packages_rejects_other_types:
  assumes pre: "add_packages_loop s pre = (Inr (), s1)"
  shows "((\<forall>name. x \<noteq> PStr name) \<and> (\<forall>m. x \<noteq> PModule m) \<and> x \<noteq> PNone \<longrightarrow>
            add_packages s (PList (pre @ x # rest)) =
              (Inl (TypeError (''Cannot add package from type ('' @ type_repr x @ '')'')), s1) \<and>
            add_packages s (PTuple (pre @ x # rest)) =
              (Inl (TypeError (''Cannot add package from type ('' @ type_repr x @ '')'')), s1)) \<and>
         add_packages s (PList (pre @ PNone # rest)) = add_packages s1 (PList rest) \<and>
         add_packages s (PTuple (pre @ PNone # rest)) = add_packages s1 (PTuple rest)"
  using add_packages_loop_after [OF pre]
  by (simp add: add_packages_def add_packages_step_other add_packages_step_none)

text \<open>
  The integer \<open>42\<close> after a module: the error is raised and only the module is registered.
\<close>

theorem add_packages_rejects_other_types_witness:
  "add_packages demo_state (PList [PModule (ModuleType ''pkg''), PInt 42, PStr ''numpy'']) =
     (Inl (TypeError (''Cannot add package from type (<class '' @ quote @ ''int'' @ quote @ ''>)'')),
      demo_state\<lparr>packages := DAList.update ''pkg'' (ModuleType ''pkg'') DAList.empty\<rparr>) \<and>
   names (demo_state\<lparr>packages := DAList.update ''pkg'' (ModuleType ''pkg'') DAList.empty\<rparr>) =
     [''pkg''] \<and>
   add_packages demo_state (PList [PModule (ModuleType ''pkg''), PNone]) =
     (Inr (), demo_state\<lparr>packages := DAList.update ''pkg'' (ModuleType ''pkg'') DAList.empty\<rparr>)"
proof -
  let ?s1 = "demo_state\<lparr>packages := DAList.update ''pkg'' (ModuleType ''pkg'') DAList.empty\<rparr>"
  have name: "mod_name (ModuleType ''pkg'') = ''pkg''"
    by (simp add: ModuleType_def)
  have pre: "add_packages_loop demo_state [PModule (ModuleType ''pkg'')] = (Inr (), ?s1)"
    by (simp add: add_packages_step_module name demo_state_fields)
  have other: "add_packages_step ?s1 (PInt 42) =
      (Inl (TypeError (''Cannot add package from type ('' @ type_repr (PInt 42) @ '')'')), ?s1)"
    by (rule add_packages_step_other) simp_all
  from add_packages_rejects_other_types [OF pre, of "PInt 42" "[PStr ''numpy'']"]
    add_packages_rejects_other_types [OF pre, of "PInt 42" "[]"]
  show ?thesis
    by (simp add: type_repr_def add_packages_def names_singleton)
qed

text \<open>
  Claim C9. \<open>add_packages\<close> does not roll back. With an element of a wrong type at
  position \<open>k\<close> of a list, the \<open>TypeError\<close> is raised in the state that the elements
  before \<open>k\<close> produced, so what they registered stays registered, and the outcome is the
  same whatever follows position \<open>k\<close>: those elements are not processed. When the
  argument itself is neither a list nor a tuple the \<open>TypeError\<close> is raised with the state
  untouched.
\<close>

theorem add_packages_not_atomic:
  assumes pre: "add_packages_loop s pre = (Inr (), s1)"
    and bad: "\<forall>name. x \<noteq> PStr name" "\<forall>m. x \<noteq> PModule m" "x \<noteq> PNone"
  shows "fst (add_packages s (PList (pre @ x # rest))) =
           Inl (TypeError (''Cannot add package from type ('' @ type_repr x @ '')'')) \<and>
         snd (add_packages s (PList (pre @ x # rest))) = snd (add_packages s (PList pre)) \<and>
         add_packages s (PList (pre @ x # rest)) = add_packages s (PList (pre @ [x])) \<and>
         ((\<forall>xs. p \<noteq> PList xs) \<and> (\<forall>xs. p \<noteq> PTuple xs) \<longrightarrow>
            add_packages s p =
              (Inl (TypeError ''You must pass a list of packages or package names.''), s))"
proof -
  have top: "(\<forall>xs. p \<noteq> PList xs) \<and> (\<forall>xs. p \<noteq> PTuple xs) \<longrightarrow>
      add_packages s p = (Inl (TypeError ''You must pass a list of packages or package names.''), s)"
    by (cases p) (simp_all add: add_packages_def)
  show ?thesis
    using add_packages_loop_after [OF pre, of x rest] add_packages_loop_after [OF pre, of x "[]"]
      pre top
    by (simp add: add_packages_def add_packages_step_other [OF bad])
qed

text \<open>
  \<open>numpy\<close> stays registered when \<open>42\<close> follows it, and \<open>vtk\<close> after \<open>42\<close> is never added.
\<close>

theorem add_packages_not_atomic_witness:
  "names (snd (add_packages demo_state (PList [PStr ''numpy'', PInt 42, PStr ''vtk'']))) = [''numpy''] \<and>
   fst (add_packages demo_state (PList [PStr ''numpy'', PInt 42, PStr ''vtk''])) =
     Inl (TypeError (''Cannot add package from type (<class '' @ quote @ ''int'' @ quote @ ''>)'')) \<and>
   add_packages demo_state (PInt 42) =
     (Inl (TypeError ''You must pass a list of packages or package names.''), demo_state)"
proof -
  let ?s1 = "demo_state\<lparr>sys_modules := [''numpy'' \<mapsto> Genuine numpy_module],
                packages := DAList.update ''numpy'' numpy_module DAList.empty\<rparr>"
  have pre: "add_packages_loop demo_state [PStr ''numpy''] = (Inr (), ?s1)"
    by (simp add: demo_add_numpy)
  have n: "names ?s1 = [''numpy'']"
    by (simp add: names_def DAList.update.rep_eq DAList.empty.rep_eq)
  have whole: "snd (add_packages demo_state (PList [PStr ''numpy''])) = ?s1"
    by (simp add: add_packages_def demo_add_numpy)
  have inst:
    "fst (add_packages demo_state (PList ([PStr ''numpy''] @ PInt 42 # [PStr ''vtk'']))) =
       Inl (TypeError (''Cannot add package from type ('' @ type_repr (PInt 42) @ '')'')) \<and>
     snd (add_packages demo_state (PList ([PStr ''numpy''] @ PInt 42 # [PStr ''vtk'']))) =
       snd (add_packages demo_state (PList [PStr ''numpy''])) \<and>
     add_packages demo_state (PList ([PStr ''numpy''] @ PInt 42 # [PStr ''vtk''])) =
       add_packages demo_state (PList ([PStr ''numpy''] @ [PInt 42])) \<and>
     ((\<forall>xs. PInt 42 \<noteq> PList xs) \<and> (\<forall>xs. PInt 42 \<noteq> PTuple xs) \<longrightarrow>
        add_packages demo_state (PInt 42) =
          (Inl (TypeError ''You must pass a list of packages or package names.''), demo_state))"
    by (rule add_packages_not_atomic [OF pre]) simp_all
  note i1 = inst [THEN conjunct1]
    and i2 = inst [THEN conjunct2, THEN conjunct1]
    and i4 = inst [THEN conjunct2, THEN conjunct2, THEN conjunct2]
  from i1 i2 i4 whole n show ?thesis
    by (simp add: type_repr_def)
qed

text \<open>
  Claim C3, amended. A string element of \<open>add_packages\<close>, reached after the elements
  before it were processed without an error. When its import raises \<open>ImportError\<close>, its
  step does not raise; it stores nothing, so the registry and \<open>names()\<close> are what the
  earlier elements left (the name is listed exactly if one of them had registered it); it
  logs one warning that carries the identifier and leaves the mock in \<open>sys.modules\<close>; and
  the loop goes on with the remaining elements. When the name is already mocked in
  \<open>sys.modules\<close>, the step changes nothing and logs nothing, and the loop goes on. When its
  import raises any other exception, \<open>add_packages\<close> raises that exception in the state
  the earlier elements left, and the remaining elements are not processed.
\<close>

theorem add_packages_import_failure:
  assumes pre: "add_packages_loop s pre = (Inr (), s1)"
  shows "(fst (import_module s1 name) = Inl (ImportError msg) \<longrightarrow>
            add_packages_step s1 (PStr name) =
              (Inr (),
               s1\<lparr>log := log s1 @
                     [Warning (''Could not import module `'' @ name @ ''`. This will be mocked.'')],
                   sys_modules := (sys_modules s1)(name \<mapsto> MockStub)\<rparr>) \<and>
            packages (snd (add_packages_step s1 (PStr name))) = packages s1 \<and>
            names (snd (add_packages_step s1 (PStr name))) = names s1 \<and>
            add_packages s (PList (pre @ PStr name # rest)) =
              add_packages
                (s1\<lparr>log := log s1 @
                      [Warning (''Could not import module `'' @ name @ ''`. This will be mocked.'')],
                    sys_modules := (sys_modules s1)(name \<mapsto> MockStub)\<rparr>)
                (PList rest)) \<and>
         (sys_modules s1 name = Some MockStub \<and> name \<noteq> [] \<and> take 1 name \<noteq> ''.'' \<longrightarrow>
            add_packages_step s1 (PStr name) = (Inr (), s1) \<and>
            add_packages s (PList (pre @ PStr name # rest)) = add_packages s1 (PList rest)) \<and>
         (fst (import_module s1 name) = Inl e \<and> (\<forall>msg. e \<noteq> ImportError msg) \<longrightarrow>
            add_packages s (PList (pre @ PStr name # rest)) = (Inl e, s1))"
proof (intro conjI impI)
  assume fails: "fst (import_module s1 name) = Inl (ImportError msg)"
  note step = add_packages_step_mocks [OF fails]
  show "add_packages_step s1 (PStr name) =
      (Inr (),
       s1\<lparr>log := log s1 @
             [Warning (''Could not import module `'' @ name @ ''`. This will be mocked.'')],
           sys_modules := (sys_modules s1)(name \<mapsto> MockStub)\<rparr>)"
    by (rule step)
  show "packages (snd (add_packages_step s1 (PStr name))) = packages s1"
    by (simp add: step)
  show "names (snd (add_packages_step s1 (PStr name))) = names s1"
    by (simp add: step names_def)
  show "add_packages s (PList (pre @ PStr name # rest)) =
      add_packages
        (s1\<lparr>log := log s1 @
              [Warning (''Could not import module `'' @ name @ ''`. This will be mocked.'')],
            sys_modules := (sys_modules s1)(name \<mapsto> MockStub)\<rparr>)
        (PList rest)"
    using add_packages_loop_after [OF pre, of "PStr name" rest]
    by (simp add: step add_packages_def)
next
  assume stubbed: "sys_modules s1 name = Some MockStub \<and> name \<noteq> [] \<and> take 1 name \<noteq> ''.''"
  then have step: "add_packages_step s1 (PStr name) = (Inr (), s1)"
    by (simp add: add_packages_step_stubbed)
  then show "add_packages_step s1 (PStr name) = (Inr (), s1)" .
  show "add_packages s (PList (pre @ PStr name # rest)) = add_packages s1 (PList rest)"
    using add_packages_loop_after [OF pre, of "PStr name" rest]
    by (simp add: step add_packages_def)
next
  assume "fst (import_module s1 name) = Inl e \<and> (\<forall>msg. e \<noteq> ImportError msg)"
  then have step: "add_packages_step s1 (PStr name) = (Inl e, s1)"
    by (simp add: add_packages_step_raises)
  show "add_packages s (PList (pre @ PStr name # rest)) = (Inl e, s1)"
    using add_packages_loop_after [OF pre, of "PStr name" rest]
    by (simp add: step add_packages_def)
qed

lemma demo_missing_fails:
  "sys_modules s ''missing'' = None \<Longrightarrow> loader s = demo_loader \<Longrightarrow>
   fst (import_module s ''missing'') =
     Inl (ImportError (''No module named '' @ quote @ ''missing'' @ quote))"
  by (simp add: import_module_def demo_loader_def no_module_named_def)

lemma demo_empty_name: "fst (import_module s []) = Inl (ValueError ''Empty module name'')"
  by (simp add: import_module_def)

text \<open>
  An unimportable name before \<open>numpy\<close>: no error, one warning, and only \<open>numpy\<close>
  registered. The same name a second time: no further warning. The empty name: a
  \<open>ValueError\<close>, and \<open>numpy\<close> after it is not reached.
\<close>

theorem add_packages_import_failure_witness:
  "add_packages demo_state (PList [PStr ''missing'', PStr ''missing'', PStr ''numpy'']) =
     (Inr (),
      demo_state
        \<lparr>log := [Warning ''Could not import module `missing`. This will be mocked.''],
         sys_modules := [''missing'' \<mapsto> MockStub, ''numpy'' \<mapsto> Genuine numpy_module],
         packages := DAList.update ''numpy'' numpy_module DAList.empty\<rparr>) \<and>
   add_packages demo_state (PList [PStr [], PStr ''numpy'']) =
     (Inl (ValueError ''Empty module name''), demo_state)"
proof -
  let ?w = "Warning ''Could not import module `missing`. This will be mocked.''"
  let ?s1 = "demo_state\<lparr>log := [?w], sys_modules := [''missing'' \<mapsto> MockStub]\<rparr>"
  have pre: "add_packages_loop demo_state [] = (Inr (), demo_state)"
    by simp
  have fails: "fst (import_module demo_state ''missing'') =
      Inl (ImportError (''No module named '' @ quote @ ''missing'' @ quote))"
    by (rule demo_missing_fails) (simp_all add: demo_state_fields)
  have first: "add_packages demo_state (PList ([] @ PStr ''missing'' # rest)) =
      add_packages ?s1 (PList rest)" for rest
    using add_packages_import_failure [OF pre, of "''missing''" _ rest] fails
    by (simp add: demo_state_fields)
  have pre1: "add_packages_loop ?s1 [] = (Inr (), ?s1)"
    by simp
  have second: "add_packages ?s1 (PList ([] @ PStr ''missing'' # rest)) =
      add_packages ?s1 (PList rest)" for rest
    using add_packages_import_failure [OF pre1, of "''missing''" _ rest]
    by simp
  have "fst (import_module ?s1 ''numpy'') = Inr (Genuine numpy_module)"
    by (rule demo_import_numpy) (simp_all add: demo_state_fields)
  from add_packages_step_genuine [OF this]
  have third: "add_packages ?s1 (PList [PStr ''numpy'']) =
      (Inr (),
       demo_state
         \<lparr>log := [?w],
          sys_modules := [''missing'' \<mapsto> MockStub, ''numpy'' \<mapsto> Genuine numpy_module],
          packages := DAList.update ''numpy'' numpy_module DAList.empty\<rparr>)"
    by (simp add: add_packages_def demo_state_fields)
  have a: "add_packages demo_state (PList [PStr ''missing'', PStr ''missing'', PStr ''numpy'']) =
      (Inr (),
       demo_state
         \<lparr>log := [?w],
          sys_modules := [''missing'' \<mapsto> MockStub, ''numpy'' \<mapsto> Genuine numpy_module],
          packages := DAList.update ''numpy'' numpy_module DAList.empty\<rparr>)"
    using first [of "[PStr ''missing'', PStr ''numpy'']"] second [of "[PStr ''numpy'']"] third
    by simp
  have b: "add_packages demo_state (PList [PStr [], PStr ''numpy'']) =
      (Inl (ValueError ''Empty module name''), demo_state)"
    using add_packages_import_failure [OF pre, of "[]" _ "[PStr ''numpy'']"
        "ValueError ''Empty module name''"] demo_empty_name [of demo_state]
    by simp
  from a b show ?thesis by simp
qed

text \<open>
  The claim as it was stated fails at these inputs. The import of \<open>foo\<close> fails, with its
  warning, and \<open>names()\<close> holds \<open>foo\<close>, which the module before it registered. The second
  \<open>missing\<close> cannot be imported either and no diagnostic is emitted for it. The empty
  name cannot be imported, and \<open>add_packages\<close> raises.
\<close>

theorem add_packages_import_failure_counterexample:
  "names (snd (add_packages demo_state (PList [PModule (ModuleType ''foo''), PStr ''foo'']))) =
     [''foo''] \<and>
   log (snd (add_packages demo_state (PList [PModule (ModuleType ''foo''), PStr ''foo'']))) =
     [Warning ''Could not import module `foo`. This will be mocked.''] \<and>
   log (snd (add_packages demo_state (PList [PStr ''missing'', PStr ''missing'']))) =
     [Warning ''Could not import module `missing`. This will be mocked.''] \<and>
   fst (add_packages demo_state (PList [PStr []])) = Inl (ValueError ''Empty module name'')"
  by (simp add: add_packages_def add_packages_step_def add_package_by_name_def add_package_def
      safe_import_by_name_def import_module_def demo_state_def demo_loader_def
      no_module_named_def ModuleType_def names_def DAList.update.rep_eq DAList.empty.rep_eq)

subsection \<open>The module cache\<close>






subsection \<open>Adding a name twice\<close>

lemma names_update:
  "map fst (DAList.impl_of (DAList.update k v al)) =
     (if k \<in> set (map fst (DAList.impl_of al)) then map fst (DAList.impl_of al)
      else map fst (DAList.impl_of al) @ [k])"
  by (simp add: DAList.update.rep_eq update_keys image_iff)

lemma count_distinct_member:
  "distinct xs \<Longrightarrow> x \<in> set xs \<Longrightarrow> length (filter (\<lambda>y. y = x) xs) = 1"
  by (induction xs) (auto simp: filter_empty_conv)

lemma names_distinct: "distinct (names s)"
  by (simp add: names_def)

lemma names_after_update:
  "k \<in> set (map fst (DAList.impl_of (DAList.update k v al)))"
  by (simp add: names_update)

text \<open>
  Claim C7. For a name whose import yields a genuine module, \<open>add_packages([name])\<close>
  succeeds, and a second \<open>add_packages([name])\<close> succeeds and changes nothing at all: the
  state after it is the state after the first call. \<open>names()\<close> then holds the name exactly
  once, the registry maps it to the imported module, and \<open>get_version(name)\<close> gives the
  same outcome after two calls as after one.
\<close>

theorem add_packages_idempotent:
  assumes valid: "fst (import_module s name) = Inr (Genuine m)"
  shows "fst (add_packages s (PList [PStr name])) = Inr () \<and>
         add_packages (snd (add_packages s (PList [PStr name]))) (PList [PStr name]) =
           (Inr (), snd (add_packages s (PList [PStr name]))) \<and>
         length (filter (\<lambda>n. n = name)
           (names (snd (add_packages (snd (add_packages s (PList [PStr name])))
                          (PList [PStr name]))))) = 1 \<and>
         DAList.lookup (packages (snd (add_packages s (PList [PStr name])))) name = Some m \<and>
         get_version mk va (snd (add_packages (snd (add_packages s (PList [PStr name])))
                          (PList [PStr name]))) (PStr name) =
           get_version mk va (snd (add_packages s (PList [PStr name]))) (PStr name)"
proof -
  define s1 where "s1 = snd (add_packages s (PList [PStr name]))"
  from valid have ok: "name \<noteq> []" "take 1 name \<noteq> ''.''"
    by (auto simp: import_module_def split: if_splits)
  have first: "add_packages s (PList [PStr name]) = (Inr (), s1)"
    unfolding s1_def by (simp add: add_packages_def add_packages_step_genuine [OF valid])
  have cached: "sys_modules s1 name = Some (Genuine m)"
    and reg: "packages s1 = DAList.update name m (packages s)"
    unfolding s1_def by (simp_all add: add_packages_def add_packages_step_genuine [OF valid])
  from cached ok have again: "fst (import_module s1 name) = Inr (Genuine m)"
    by (simp add: import_module_cached)
  have upd: "s1\<lparr>sys_modules := (sys_modules s1)(name \<mapsto> Genuine m),
               packages := DAList.update name m (packages s1)\<rparr> = s1"
    using cached by (simp add: reg fun_upd_idem)
  have second: "add_packages s1 (PList [PStr name]) = (Inr (), s1)"
    by (simp add: add_packages_def add_packages_step_genuine [OF again] upd)
  have "name \<in> set (names s1)"
    by (simp add: names_def reg names_after_update del: set_map)
  then have one: "length (filter (\<lambda>n. n = name) (names s1)) = 1"
    by (rule count_distinct_member [OF names_distinct])
  have look: "DAList.lookup (packages s1) name = Some m"
    by (simp add: reg)
  show ?thesis
    unfolding s1_def [symmetric] using first second one look by simp
qed

text \<open>
  \<open>numpy\<close> added twice: one entry, and version \<open>1.16.4\<close> after one call and after two.
\<close>

theorem add_packages_idempotent_witness:
  "names (snd (add_packages (snd (add_packages demo_state (PList [PStr ''numpy''])))
     (PList [PStr ''numpy'']))) = [''numpy''] \<and>
   fst (get_version mock_getattr demo_table
     (snd (add_packages (snd (add_packages demo_state (PList [PStr ''numpy''])))
        (PList [PStr ''numpy'']))) (PStr ''numpy'')) = Inr (PStr ''1.16.4'') \<and>
   fst (get_version mock_getattr demo_table
     (snd (add_packages demo_state (PList [PStr ''numpy''])))
     (PStr ''numpy'')) = Inr (PStr ''1.16.4'')"
proof -
  have valid: "fst (import_module demo_state ''numpy'') = Inr (Genuine numpy_module)"
    by (rule demo_import_numpy) (simp_all add: demo_state_fields)
  let ?s1 = "demo_state\<lparr>sys_modules := [''numpy'' \<mapsto> Genuine numpy_module],
                packages := DAList.update ''numpy'' numpy_module DAList.empty\<rparr>"
  have once: "snd (add_packages demo_state (PList [PStr ''numpy''])) = ?s1"
    by (simp add: add_packages_def demo_add_numpy)
  have a: "add_packages ?s1 (PList [PStr ''numpy'']) = (Inr (), ?s1)"
    using add_packages_idempotent [OF valid, of mock_getattr demo_table] by (simp add: once)
  have v: "get_version mock_getattr demo_table ?s1 (PStr ''numpy'') =
      (Inr (PStr ''1.16.4''), ?s1)"
    by (simp add: demo_table_def get_version_def get_version_fetch_def
        get_version_info_def numpy_module_def)
  have n: "names ?s1 = [''numpy'']"
    by (simp add: names_def DAList.update.rep_eq DAList.empty.rep_eq)
  show ?thesis
    by (simp add: once a v n)
qed

subsection \<open>Version lookup\<close>







lemma mock_getattr_values:
  "mock_getattr ''VTK_VERSION'' = Some PMock" "mock_getattr ''__version__'' = None"
  "mock_getattr ''call_count'' = Some (PInt 0)"
  by (simp_all add: mock_getattr_def mock_data_attrs_def is_magic_def)



text \<open>
  \<open>get_version\<close> raises a \<open>TypeError\<close> of its own for exactly the inputs that are neither
  a string nor a module.
\<close>

lemma get_version_fetch_other:
  "(\<forall>name. pckg \<noteq> PStr name) \<Longrightarrow> (\<forall>m. pckg \<noteq> PModule m) \<Longrightarrow>
   get_version_fetch s pckg =
     (Inl (TypeError (''Cannot fetch version from type ('' @ type_repr pckg @ '')'')), s)"
  by (cases pckg) (simp_all add: get_version_fetch_def)

lemma get_version_other:
  "(\<forall>name. pckg \<noteq> PStr name) \<Longrightarrow> (\<forall>m. pckg \<noteq> PModule m) \<Longrightarrow>
   get_version mk va s pckg =
     (Inl (TypeError (''Cannot fetch version from type ('' @ type_repr pckg @ '')'')), s)"
  by (simp add: get_version_def get_version_fetch_other)

text \<open>
  Claim C2, at the input where the code departs from it. \<open>vtk\<close> cannot be imported and
  the table names \<open>VTK_VERSION\<close> for it: \<open>get_version\<close> reads that attribute off the mock
  that \<open>_safe_import_by_name\<close> returned, the mock creates it, and the result is a mock
  object, with no warning about the version. With an empty table the same call ends in
  \<open>unknown\<close> and the warning, since the mock refuses \<open>__version__\<close>.
\<close>

theorem get_version_of_mocked_override:
  "get_version mock_getattr demo_table bare_state (PStr ''vtk'') =
     (Inr PMock,
      bare_state\<lparr>log := [Warning ''Could not import module `vtk`. This will be mocked.''],
                 sys_modules := [''vtk'' \<mapsto> MockStub]\<rparr>) \<and>
   get_version mock_getattr Map.empty bare_state (PStr ''vtk'') =
     (Inr (PStr ''unknown''),
      bare_state\<lparr>log := [Warning ''Could not import module `vtk`. This will be mocked.'',
                         Warning ''Varsion attribute for `vtk` is unknown.''],
                 sys_modules := [''vtk'' \<mapsto> MockStub]\<rparr>)"
  by (simp add: get_version_def get_version_fetch_def get_version_info_def
      safe_import_by_name_def import_module_def bare_state_def demo_table_def
      no_module_named_def mock_getattr_values)

subsection \<open>The names after construction\<close>

















subsection \<open>The wrapped interpreter version\<close>

lemma split_on_nonempty: "split_on c xs \<noteq> []"
  by (induction xs) (auto split: list.splits)

lemma split_on_line:
  "c \<notin> set l \<Longrightarrow> split_on c (l @ c # rest) = l # split_on c rest"
  by (induction l) (auto split: list.splits)

lemma split_on_lines:
  "\<forall>l \<in> set ls. c \<notin> set l \<Longrightarrow> c \<notin> set p \<Longrightarrow>
   split_on c (concat (map (\<lambda>l. p @ l @ [c]) ls)) = map (\<lambda>l. p @ l) ls @ [[]]"
proof (induction ls)
  case Nil
  then show ?case by simp
next
  case (Cons l ls)
  then have "c \<notin> set (p @ l)" by simp
  from split_on_line [OF this, of "concat (map (\<lambda>l. p @ l @ [c]) ls)"] Cons
  show ?case by simp
qed

lemma foldl_lines:
  "foldl (\<lambda>text txt. text @ p @ txt @ [c]) acc ls = acc @ concat (map (\<lambda>l. p @ l @ [c]) ls)"
  by (induction ls arbitrary: acc) simp_all

lemma sys_version_text:
  "wrap version (text_width s - 4) = Inr lines \<Longrightarrow>
   sys_version wrap version s = Inr (newline # concat (map (\<lambda>l. ''  '' @ l @ [newline]) lines))"
  using foldl_lines [of "''  ''" newline "[newline]" lines]
  by (simp add: sys_version_def)

lemma sys_version_lines:
  assumes "\<forall>l \<in> set lines. newline \<notin> set l"
  shows "split_on newline (newline # concat (map (\<lambda>l. ''  '' @ l @ [newline]) lines)) =
           [] # map (\<lambda>l. ''  '' @ l) lines @ [[]]"
proof -
  have "newline \<notin> set ''  ''"
    by (simp add: newline_def)
  from split_on_lines [OF assms this] show ?thesis by simp
qed

text \<open>
  Claim C8. \<open>textwrap.wrap\<close> is a parameter that meets \<open>textwrap_contract\<close>. For a
  \<open>text_width\<close> above 4, \<open>sys_version\<close> returns a newline followed by the lines of
  \<open>sys.version\<close> wrapped to \<open>text_width - 4\<close> columns, each prefixed with two spaces and
  ended by a newline; split at the newlines the block is an empty line, the prefixed lines
  and the empty rest after the last newline. For a \<open>text_width\<close> of 4 or less the error of
  \<open>textwrap.wrap\<close> is raised and no line is produced. In every case a line of the
  returned block has at most \<open>text_width - 2\<close> columns, hence never more than
  \<open>text_width\<close>.
\<close>
theorem sys_version_within_width:
  assumes contract: "textwrap_contract wrap"
  shows "(4 < text_width s \<longrightarrow>
           (\<exists>lines. wrap version (text_width s - 4) = Inr lines \<and>
              sys_version wrap version s =
                Inr (newline # concat (map (\<lambda>l. ''  '' @ l @ [newline]) lines)) \<and>
              split_on newline (newline # concat (map (\<lambda>l. ''  '' @ l @ [newline]) lines)) =
                [] # map (\<lambda>l. ''  '' @ l) lines @ [[]])) \<and>
         (text_width s \<le> 4 \<longrightarrow> (\<exists>e. sys_version wrap version s = Inl e)) \<and>
         (\<forall>text. sys_version wrap version s = Inr text \<longrightarrow>
            (\<forall>line \<in> set (split_on newline text). int (length line) \<le> text_width s - 2))"
proof -
  from contract have c:
    "(text_width s - 4 \<le> 0 \<longrightarrow> (\<exists>e. wrap version (text_width s - 4) = Inl e)) \<and>
     (0 < text_width s - 4 \<longrightarrow>
        (\<exists>lines. wrap version (text_width s - 4) = Inr lines \<and>
           (\<forall>l \<in> set lines. int (length l) \<le> text_width s - 4 \<and> newline \<notin> set l)))"
    unfolding textwrap_contract_def by (elim allE [of _ version] allE [of _ "text_width s - 4"])
  show ?thesis
  proof (cases "4 < text_width s")
    case True
    with c obtain lines where
      w: "wrap version (text_width s - 4) = Inr lines" and
      b: "\<forall>l \<in> set lines. int (length l) \<le> text_width s - 4 \<and> newline \<notin> set l"
      by auto
    from b have nl: "\<forall>l \<in> set lines. newline \<notin> set l" by simp
    note whole = sys_version_text [of wrap version s lines, OF w]
    note spl = sys_version_lines [OF nl]
    have bound: "int (length line) \<le> text_width s - 2"
      if "line \<in> set ([] # map (\<lambda>l. ''  '' @ l) lines @ [[]])" for line
    proof -
      from that have "line = [] \<or> (\<exists>l \<in> set lines. line = ''  '' @ l)"
        by auto
      then show ?thesis
      proof
        assume "line = []"
        with True show ?thesis by simp
      next
        assume "\<exists>l \<in> set lines. line = ''  '' @ l"
        then obtain l where "l \<in> set lines" "line = ''  '' @ l" by blast
        with b have "int (length l) \<le> text_width s - 4" "length line = length l + 2"
          by simp_all
        then show ?thesis by simp
      qed
    qed
    have 1: "\<exists>lines. wrap version (text_width s - 4) = Inr lines \<and>
        sys_version wrap version s =
          Inr (newline # concat (map (\<lambda>l. ''  '' @ l @ [newline]) lines)) \<and>
        split_on newline (newline # concat (map (\<lambda>l. ''  '' @ l @ [newline]) lines)) =
          [] # map (\<lambda>l. ''  '' @ l) lines @ [[]]"
      by (intro exI [of _ lines] conjI) (rule w whole spl)+
    have 3: "\<forall>t. sys_version wrap version s = Inr t \<longrightarrow>
        (\<forall>line \<in> set (split_on newline t). int (length line) \<le> text_width s - 2)"
    proof (intro allI impI ballI)
      fix t line
      assume r: "sys_version wrap version s = Inr t"
        and m: "line \<in> set (split_on newline t)"
      from r whole have t: "t = newline # concat (map (\<lambda>l. ''  '' @ l @ [newline]) lines)"
        by simp
      from m have "line \<in> set ([] # map (\<lambda>l. ''  '' @ l) lines @ [[]])"
        unfolding t spl .
      then show "int (length line) \<le> text_width s - 2"
        by (rule bound)
    qed
    have first: "4 < text_width s \<longrightarrow>
        (\<exists>lines. wrap version (text_width s - 4) = Inr lines \<and>
           sys_version wrap version s =
             Inr (newline # concat (map (\<lambda>l. ''  '' @ l @ [newline]) lines)) \<and>
           split_on newline (newline # concat (map (\<lambda>l. ''  '' @ l @ [newline]) lines)) =
             [] # map (\<lambda>l. ''  '' @ l) lines @ [[]])"
      by (intro impI) (rule 1)
    from True have 2: "text_width s \<le> 4 \<longrightarrow> (\<exists>e. sys_version wrap version s = Inl e)"
      by simp
    show ?thesis
      by (intro conjI) (rule first 2 3)+
  next
    case False
    with c obtain e where "wrap version (text_width s - 4) = Inl e"
      by auto
    with False show ?thesis
      by (simp add: sys_version_def)
  qed
qed

lemma chop_lines: "l \<in> set (chop n xs) \<Longrightarrow> length l \<le> n \<and> set l \<subseteq> set xs"
proof (induction n xs rule: chop.induct)
  case (1 n xs)
  show ?case
  proof (cases "n = 0 \<or> xs = []")
    case True
    with "1.prems" show ?thesis by (simp add: chop.simps [of n xs])
  next
    case False
    with "1.prems" have "l = take n xs \<or> l \<in> set (chop n (drop n xs))"
      by (simp add: chop.simps [of n xs])
    then show ?thesis
    proof
      assume "l = take n xs"
      then show ?thesis by (auto dest: in_set_takeD)
    next
      assume "l \<in> set (chop n (drop n xs))"
      with "1.IH" False have "length l \<le> n \<and> set l \<subseteq> set (drop n xs)" by blast
      then show ?thesis by (auto dest: in_set_dropD)
    qed
  qed
qed

lemma chop_wrap_contract: "textwrap_contract chop_wrap"
  unfolding textwrap_contract_def
proof (intro allI conjI impI)
  fix t :: string and width :: int
  assume "width \<le> 0"
  then show "\<exists>e. chop_wrap t width = Inl e"
    by (simp add: chop_wrap_def)
next
  fix t :: string and width :: int
  assume pos: "0 < width"
  let ?ls = "chop (nat width) (map (\<lambda>c. if c = newline then CHR '' '' else c) t)"
  have "int (length l) \<le> width \<and> newline \<notin> set l" if "l \<in> set ?ls" for l
    using chop_lines [OF that] pos by (auto simp: newline_def)
  with pos show "\<exists>lines. chop_wrap t width = Inr lines \<and>
      (\<forall>l \<in> set lines. int (length l) \<le> width \<and> newline \<notin> set l)"
    by (simp add: chop_wrap_def)
qed

text \<open>
  Sixteen columns: the version is cut to twelve and every line of the block has at most
  fourteen.
\<close>

theorem sys_version_within_width_witness:
  "sys_version chop_wrap demo_version narrow_state =
     Inr ([newline] @ ''  3.7.3 (defau'' @ [newline] @ ''  lt) [GCC 7.3'' @ [newline] @
          ''  .0]'' @ [newline]) \<and>
   split_on newline
     ([newline] @ ''  3.7.3 (defau'' @ [newline] @ ''  lt) [GCC 7.3'' @ [newline] @
      ''  .0]'' @ [newline]) =
     [[], ''  3.7.3 (defau'', ''  lt) [GCC 7.3'', ''  .0]'', []] \<and>
   text_width narrow_state = 16"
  using sys_version_within_width [OF chop_wrap_contract, of narrow_state demo_version]
  by (simp add: sys_version_def chop_wrap_def chop.simps demo_version_def narrow_state_def
      demo_state_def newline_def)

end
